theory Spec2Isabelle
  imports Main "HOL-Library.Sublist" "HOL-Library.AList"
begin

section \<open>Barcode pipeline of medicineOCR (app/utils.py)\<close>

text \<open>
  Python strings are modelled as \<^typ>\<open>string\<close>, one \<^typ>\<open>char\<close> per code point, which
  covers the code points U+0000 to U+00FF. On that range the regular-expression class
  \<^verbatim>\<open>\d\<close> matches exactly the ten ASCII digits.

  A Python \<^verbatim>\<open>dict\<close> with string keys and string values is an association list in
  insertion order: \<^verbatim>\<open>d[k] = v\<close> is \<^const>\<open>AList.update\<close> (an existing key keeps
  its place, a new key is appended) and \<^verbatim>\<open>d.get(k, default)\<close> is \<open>dict_get\<close>.
\<close>

type_synonym dict = "(string \<times> string) list"

definition dict_get :: "dict \<Rightarrow> string \<Rightarrow> string \<Rightarrow> string" where
  "dict_get d k dflt = (case map_of d k of None \<Rightarrow> dflt | Some v \<Rightarrow> v)"

subsection \<open>The regular expressions of \<^verbatim>\<open>parse_gs1_barcode\<close>\<close>

text \<open>
  Each of the five patterns is a two-character literal followed by one capturing group,
  a character class under a quantifier (\<^verbatim>\<open>{n}\<close> or \<^verbatim>\<open>+\<close>). The group ends the
  pattern, so the greedy quantifier takes the longest run and nothing after it can force
  backtracking.

  The class of the batch and serial patterns is written \<^verbatim>\<open>[^\\x1D]\<close> in a raw string:
  the regular-expression engine reads \<^verbatim>\<open>\\\<close> as one escaped backslash and then the three
  literal characters \<^verbatim>\<open>x\<close>, \<^verbatim>\<open>1\<close> and \<^verbatim>\<open>D\<close>, so the class excludes those four
  characters (and not the control character U+001D).
\<close>

datatype charclass = Digit | NoneOf "char list"

datatype quantifier = Exactly nat | OneOrMore

datatype pattern = Pattern string charclass quantifier

fun in_class :: "charclass \<Rightarrow> char \<Rightarrow> bool" where
  "in_class Digit c = (c \<in> set ''0123456789'')"
| "in_class (NoneOf cs) c = (c \<notin> set cs)"

fun match_group :: "charclass \<Rightarrow> quantifier \<Rightarrow> string \<Rightarrow> string option" where
  "match_group cls (Exactly n) s =
     (let g = take n s
      in if length g = n \<and> list_all (in_class cls) g then Some g else None)"
| "match_group cls OneOrMore s =
     (let g = takeWhile (in_class cls) s
      in if g \<noteq> [] then Some g else None)"

text \<open>\<open>match_at p s\<close>: the pattern matched at the first position of \<open>s\<close>; the result is
  \<^verbatim>\<open>group(1)\<close>.\<close>

fun match_at :: "pattern \<Rightarrow> string \<Rightarrow> string option" where
  "match_at (Pattern lit cls q) s =
     (if prefix lit s then match_group cls q (drop (length lit) s) else None)"

text \<open>\<^verbatim>\<open>re.search(pattern, s)\<close> tries the start positions from left to right and stops at
  the first that matches; \<open>None\<close> is Python's \<^verbatim>\<open>None\<close>.\<close>

fun re_search :: "pattern \<Rightarrow> string \<Rightarrow> string option" where
  "re_search p [] = match_at p []"
| "re_search p (c # cs) =
     (case match_at p (c # cs) of Some g \<Rightarrow> Some g | None \<Rightarrow> re_search p cs)"

definition backslash :: char where
  "backslash = CHR 0x5C"

definition gs1_patterns :: "(pattern \<times> string) list" where
  "gs1_patterns =
     [(Pattern ''01'' Digit (Exactly 14), ''gtin''),
      (Pattern ''17'' Digit (Exactly 6), ''expiry''),
      (Pattern ''10'' (NoneOf [backslash, CHR ''x'', CHR ''1'', CHR ''D'']) OneOrMore, ''batch''),
      (Pattern ''21'' (NoneOf [backslash, CHR ''x'', CHR ''1'', CHR ''D'']) OneOrMore, ''serial''),
      (Pattern ''30'' Digit OneOrMore, ''quantity'')]"

subsection \<open>The GS1 parser and the dispatcher\<close>

definition empty_info :: dict where
  "empty_info =
     [(''medicineName'', ''''), (''price'', ''''), (''manufacturingDate'', ''''),
      (''expiryDate'', ''''), (''batchNumber'', ''''), (''quantity'', '''')]"

text \<open>The body of the loop over \<^verbatim>\<open>gs1_patterns.items()\<close>. The slices
  \<^verbatim>\<open>value[:2]\<close>, \<^verbatim>\<open>value[2:4]\<close> and \<^verbatim>\<open>value[4:6]\<close> are \<open>take\<close> after \<open>drop\<close>.\<close>

definition gs1_step :: "string \<Rightarrow> dict \<Rightarrow> pattern \<times> string \<Rightarrow> dict" where
  "gs1_step barcode_data medicine_info pf =
     (case re_search (fst pf) barcode_data of
        None \<Rightarrow> medicine_info
      | Some val \<Rightarrow>
          if snd pf = ''expiry'' then
            (if length val = 6 then
               AList.update ''expiryDate''
                 ((''20'' @ take 2 val) @ ''-'' @ take 2 (drop 2 val) @ ''-'' @ take 2 (drop 4 val))
                 medicine_info
             else medicine_info)
          else if snd pf = ''batch'' then AList.update ''batchNumber'' val medicine_info
          else if snd pf = ''quantity'' then AList.update ''quantity'' val medicine_info
          else medicine_info)"

definition parse_gs1_barcode :: "string \<Rightarrow> dict" where
  "parse_gs1_barcode barcode_data = foldl (gs1_step barcode_data) empty_info gs1_patterns"

definition parse_code128_medicine_data :: "string \<Rightarrow> dict" where
  "parse_code128_medicine_data barcode_data =
     (if prefix ''01'' barcode_data then parse_gs1_barcode barcode_data else empty_info)"

definition parse_datamatrix_medicine_data :: "string \<Rightarrow> dict" where
  "parse_datamatrix_medicine_data barcode_data =
     (if prefix ''01'' barcode_data then parse_gs1_barcode barcode_data else empty_info)"

text \<open>
  \<^verbatim>\<open>get_product_info_from_upc_database\<close> builds the empty record, then runs its lookup
  inside \<^verbatim>\<open>try\<close>. The module never imports \<^verbatim>\<open>requests\<close>, so the call
  \<^verbatim>\<open>requests.get(...)\<close> raises \<^verbatim>\<open>NameError\<close> before any response is read; the
  \<^verbatim>\<open>except Exception\<close> clause prints it and the function returns the record it built.
  The lookup is the sum \<open>requests_get\<close>; the handler is the \<open>Inl\<close> branch.
\<close>

datatype error = ValueError string | NameError string | LibraryError string

definition requests_get :: "string \<Rightarrow> error + string" where
  "requests_get url = Inl (NameError ''name 'requests' is not defined'')"

definition get_product_info_from_upc_database :: "string \<Rightarrow> dict" where
  "get_product_info_from_upc_database barcode_data =
     (let medicine_info = empty_info
      in case requests_get (''https://api.upcitemdb.com/prod/trial/lookup?upc='' @ barcode_data) of
           Inl e \<Rightarrow> medicine_info
         | Inr product_name \<Rightarrow> AList.update ''medicineName'' product_name medicine_info)"

definition get_medicine_info_from_barcode :: "string \<Rightarrow> string \<Rightarrow> dict" where
  "get_medicine_info_from_barcode barcode_data barcode_type =
     (let medicine_info = empty_info
      in if barcode_type \<in> set [''EAN13'', ''EAN8'', ''UPCA'', ''UPCE''] then
           get_product_info_from_upc_database barcode_data
         else if barcode_type = ''CODE128'' then parse_code128_medicine_data barcode_data
         else if barcode_type = ''DATAMATRIX'' then parse_datamatrix_medicine_data barcode_data
         else medicine_info)"

subsection \<open>Image enhancement and \<^verbatim>\<open>scan_barcode\<close>\<close>

text \<open>
  The image libraries are outside the repository, so they are parameters: a record of
  what each call returns. A file system maps a path to the content stored there; \<open>'i\<close>
  is the type of image contents. Every library call that can raise returns a sum, and
  \<open>LibraryError\<close> carries the text \<^verbatim>\<open>str(e)\<close> of the exception.
\<close>

type_synonym path = string

type_synonym 'i filesystem = "path \<rightharpoonup> 'i"

text \<open>One element of the list \<^verbatim>\<open>pyzbar.decode\<close> returns: \<open>data_utf8\<close> is what
  \<^verbatim>\<open>barcode.data.decode('utf-8')\<close> evaluates to (it raises on bytes that are not UTF-8),
  \<open>symbology\<close> is \<^verbatim>\<open>barcode.type\<close>.\<close>

datatype decoded = Decoded (data_utf8: "error + string") (symbology: string)

record 'i library =
  Image_open :: "'i \<Rightarrow> error + 'i"
  pyzbar_decode :: "'i \<Rightarrow> error + decoded list"
  cv2_imread :: "'i \<Rightarrow> 'i option"
  cv2_threshold :: "'i \<Rightarrow> 'i"
  cv2_imwrite :: "path \<Rightarrow> 'i \<Rightarrow> error + bool"

fun str :: "error \<Rightarrow> string" where
  "str (ValueError m) = m"
| "str (NameError m) = m"
| "str (LibraryError m) = m"

text \<open>\<^verbatim>\<open>s.replace(old, new)\<close> for a non-empty \<open>old\<close>: every occurrence, left to right,
  without overlap.\<close>

fun str_replace :: "string \<Rightarrow> string \<Rightarrow> string \<Rightarrow> string" where
  "str_replace old new [] = []"
| "str_replace old new (c # cs) =
     (if old \<noteq> [] \<and> prefix old (c # cs)
      then new @ str_replace old new (drop (length old - 1) cs)
      else c # str_replace old new cs)"

text \<open>\<^verbatim>\<open>Image.open(path)\<close> raises when no file is at the path.\<close>

definition open_path :: "'i library \<Rightarrow> 'i filesystem \<Rightarrow> path \<Rightarrow> error + 'i" where
  "open_path lib fs p =
     (case fs p of
        None \<Rightarrow> Inl (LibraryError ''No such file or directory'')
      | Some f \<Rightarrow> Image_open lib f)"

text \<open>
  \<^verbatim>\<open>cv2.imread\<close> returns \<^verbatim>\<open>None\<close> for a file it cannot read, and the next call
  (\<^verbatim>\<open>cv2.cvtColor\<close>) raises on it. \<open>cv2_threshold\<close> is the pure pixel pipeline
  (grayscale, blur, adaptive threshold). \<^verbatim>\<open>cv2.imwrite\<close> raises, or returns whether it
  wrote the file. The result is the returned path (or the exception) and the file system
  after the call.
\<close>

definition enhance_image_for_barcode ::
    "'i library \<Rightarrow> 'i filesystem \<Rightarrow> path \<Rightarrow> (error + path) \<times> 'i filesystem" where
  "enhance_image_for_barcode lib fs image_path =
     (case (case fs image_path of None \<Rightarrow> None | Some f \<Rightarrow> cv2_imread lib f) of
        None \<Rightarrow> (Inl (LibraryError ''cv2.error''), fs)
      | Some img \<Rightarrow>
          (let thresh = cv2_threshold lib img;
               enhanced_path = str_replace ''.jpg'' ''_enhanced.jpg'' image_path
           in case cv2_imwrite lib enhanced_path thresh of
                Inl e \<Rightarrow> (Inl e, fs)
              | Inr written \<Rightarrow>
                  (Inr enhanced_path, if written then fs(enhanced_path \<mapsto> thresh) else fs)))"

text \<open>The block under \<^verbatim>\<open>if not barcodes:\<close> (enhance, open, decode, then remove the
  enhanced file if it exists). An exception leaves the block at the call that raises it.\<close>

definition retry_enhanced ::
    "'i library \<Rightarrow> 'i filesystem \<Rightarrow> path \<Rightarrow> (error + decoded list) \<times> 'i filesystem" where
  "retry_enhanced lib fs image_path =
     (case enhance_image_for_barcode lib fs image_path of
        (Inl e, fs1) \<Rightarrow> (Inl e, fs1)
      | (Inr enhanced_path, fs1) \<Rightarrow>
          (case open_path lib fs1 enhanced_path of
             Inl e \<Rightarrow> (Inl e, fs1)
           | Inr enhanced_image \<Rightarrow>
               (case pyzbar_decode lib enhanced_image of
                  Inl e \<Rightarrow> (Inl e, fs1)
                | Inr barcodes \<Rightarrow>
                    (Inr barcodes,
                     if enhanced_path \<in> dom fs1 then fs1(enhanced_path := None) else fs1))))"

text \<open>The dictionary literal that \<^verbatim>\<open>scan_barcode\<close> returns.\<close>

definition assemble :: "dict \<Rightarrow> string \<Rightarrow> string \<Rightarrow> dict" where
  "assemble medicine_info barcode_data barcode_type =
     [(''medicineName'', dict_get medicine_info ''medicineName'' ''''),
      (''price'', dict_get medicine_info ''price'' ''''),
      (''manufacturingDate'', dict_get medicine_info ''manufacturingDate'' ''''),
      (''expiryDate'', dict_get medicine_info ''expiryDate'' ''''),
      (''batchNumber'', dict_get medicine_info ''batchNumber'' ''''),
      (''quantity'', dict_get medicine_info ''quantity'' ''''),
      (''barcodeData'', barcode_data),
      (''barcodeType'', barcode_type)]"

text \<open>The body of the \<^verbatim>\<open>try\<close> statement.\<close>

definition scan_try ::
    "'i library \<Rightarrow> 'i filesystem \<Rightarrow> path \<Rightarrow> (error + dict) \<times> 'i filesystem" where
  "scan_try lib fs image_path =
     (case open_path lib fs image_path of
        Inl e \<Rightarrow> (Inl e, fs)
      | Inr image0 \<Rightarrow>
     (case pyzbar_decode lib image0 of
        Inl e \<Rightarrow> (Inl e, fs)
      | Inr barcodes0 \<Rightarrow>
     (case (if barcodes0 = [] then retry_enhanced lib fs image_path else (Inr barcodes0, fs)) of
        (Inl e, fs') \<Rightarrow> (Inl e, fs')
      | (Inr barcodes, fs') \<Rightarrow>
     (case barcodes of
        [] \<Rightarrow> (Inl (ValueError ''No barcode detected in the image''), fs')
      | barcode # _ \<Rightarrow>
     (case data_utf8 barcode of
        Inl e \<Rightarrow> (Inl e, fs')
      | Inr barcode_data \<Rightarrow>
          (let barcode_type = symbology barcode;
               medicine_info = get_medicine_info_from_barcode barcode_data barcode_type
           in (Inr (assemble medicine_info barcode_data barcode_type), fs')))))))"

text \<open>\<^verbatim>\<open>except Exception as e: raise ValueError(f"Barcode scanning failed: {str(e)}")\<close>
  wraps every exception of the body, the one the body raises itself included.\<close>

definition scan_barcode ::
    "'i library \<Rightarrow> 'i filesystem \<Rightarrow> path \<Rightarrow> (error + dict) \<times> 'i filesystem" where
  "scan_barcode lib fs image_path =
     (case scan_try lib fs image_path of
        (Inl e, fs') \<Rightarrow> (Inl (ValueError (''Barcode scanning failed: '' @ str e)), fs')
      | (Inr r, fs') \<Rightarrow> (Inr r, fs'))"

subsection \<open>Concrete libraries and file systems\<close>

text \<open>Image contents are numbers: \<open>0\<close> is the uploaded photograph and the threshold
  pipeline maps content \<open>n\<close> to \<open>n + 1\<close>. The libraries differ in what the decoder does.\<close>

definition photo_fs :: "nat filesystem" where
  "photo_fs = [''/tmp/scan.jpg'' \<mapsto> 0]"

definition lib_of :: "(nat \<Rightarrow> error + decoded list) \<Rightarrow> nat library" where
  "lib_of dec =
     \<lparr>Image_open = (\<lambda>f. Inr f), pyzbar_decode = dec, cv2_imread = (\<lambda>f. Some f),
      cv2_threshold = (\<lambda>f. f + 1), cv2_imwrite = (\<lambda>p f. Inr True)\<rparr>"

text \<open>No symbol in the photograph and none in the enhanced image.\<close>

definition lib_blank :: "nat library" where
  "lib_blank = lib_of (\<lambda>f. Inr [])"

text \<open>No symbol in the photograph; the decoder raises on the enhanced image.\<close>

definition lib_raising :: "string \<Rightarrow> nat library" where
  "lib_raising msg = lib_of (\<lambda>f. if f = 0 then Inr [] else Inl (LibraryError msg))"

text \<open>The photograph shows one symbol.\<close>

definition lib_symbol :: "string \<Rightarrow> string \<Rightarrow> nat library" where
  "lib_symbol payload ty = lib_of (\<lambda>f. Inr [Decoded (Inr payload) ty])"

text \<open>The symbol is found only in the enhanced image.\<close>

definition lib_enhanced_symbol :: "string \<Rightarrow> string \<Rightarrow> nat library" where
  "lib_enhanced_symbol payload ty =
     lib_of (\<lambda>f. if f = 0 then Inr [] else Inr [Decoded (Inr payload) ty])"

section \<open>Properties\<close>

subsection \<open>What \<^verbatim>\<open>re.search\<close> returns\<close>


lemma re_search_NoneD:
  "re_search p s = None \<Longrightarrow> i \<le> length s \<Longrightarrow> match_at p (drop i s) = None"
proof (induction s arbitrary: i)
  case Nil
  then show ?case by simp
next
  case (Cons c cs)
  then show ?case by (cases i) (auto split: option.splits)
qed

subsection \<open>Dictionaries\<close>

lemma dict_get_update:
  "dict_get (AList.update k v d) k' dflt = (if k' = k then v else dict_get d k' dflt)"
  by (simp add: dict_get_def update_conv')

lemma keys_update:
  "k \<in> set (map fst d) \<Longrightarrow> map fst (AList.update k v d) = map fst d"
  by (induction d) auto

subsection \<open>One step of the loop over the patterns\<close>

lemma gs1_step_keys:
  assumes "''expiryDate'' \<in> set (map fst info)" "''batchNumber'' \<in> set (map fst info)"
    "''quantity'' \<in> set (map fst info)"
  shows "map fst (gs1_step s info pf) = map fst info"
  using assms unfolding gs1_step_def
  by (cases "re_search (fst pf) s") (simp_all add: keys_update)

lemma foldl_gs1_step_keys:
  "''expiryDate'' \<in> set (map fst info) \<Longrightarrow> ''batchNumber'' \<in> set (map fst info) \<Longrightarrow>
   ''quantity'' \<in> set (map fst info) \<Longrightarrow>
   map fst (foldl (gs1_step s) info ps) = map fst info"
proof (induction ps arbitrary: info)
  case Nil
  then show ?case by simp
next
  case (Cons pf ps)
  have k: "map fst (gs1_step s info pf) = map fst info"
    using Cons.prems by (rule gs1_step_keys)
  have "map fst (foldl (gs1_step s) (gs1_step s info pf) ps) = map fst (gs1_step s info pf)"
    using Cons.prems by (intro Cons.IH) (simp_all only: k)
  then show ?case by (simp add: k)
qed

lemma gs1_step_other:
  "f \<noteq> ''expiry'' \<Longrightarrow> f \<noteq> ''batch'' \<Longrightarrow> f \<noteq> ''quantity'' \<Longrightarrow> gs1_step s info (p, f) = info"
  unfolding gs1_step_def by (cases "re_search p s") simp_all

lemma gs1_step_expiry:
  "dict_get (gs1_step s info (p, ''expiry'')) ''expiryDate'' d =
     (case re_search p s of
        None \<Rightarrow> dict_get info ''expiryDate'' d
      | Some v \<Rightarrow>
          if length v = 6
          then (''20'' @ take 2 v) @ ''-'' @ take 2 (drop 2 v) @ ''-'' @ take 2 (drop 4 v)
          else dict_get info ''expiryDate'' d)"
  unfolding gs1_step_def by (cases "re_search p s") (simp_all add: dict_get_update)

lemma gs1_step_batch:
  "dict_get (gs1_step s info (p, ''batch'')) ''batchNumber'' d =
     (case re_search p s of None \<Rightarrow> dict_get info ''batchNumber'' d | Some v \<Rightarrow> v)"
  unfolding gs1_step_def by (cases "re_search p s") (simp_all add: dict_get_update)

lemma gs1_step_quantity:
  "dict_get (gs1_step s info (p, ''quantity'')) ''quantity'' d =
     (case re_search p s of None \<Rightarrow> dict_get info ''quantity'' d | Some v \<Rightarrow> v)"
  unfolding gs1_step_def by (cases "re_search p s") (simp_all add: dict_get_update)

lemma gs1_step_expiry_other:
  "k \<noteq> ''expiryDate'' \<Longrightarrow> dict_get (gs1_step s info (p, ''expiry'')) k d = dict_get info k d"
  unfolding gs1_step_def by (cases "re_search p s") (simp_all add: dict_get_update)

lemma gs1_step_batch_other:
  "k \<noteq> ''batchNumber'' \<Longrightarrow> dict_get (gs1_step s info (p, ''batch'')) k d = dict_get info k d"
  unfolding gs1_step_def by (cases "re_search p s") (simp_all add: dict_get_update)

lemma gs1_step_quantity_other:
  "k \<noteq> ''quantity'' \<Longrightarrow> dict_get (gs1_step s info (p, ''quantity'')) k d = dict_get info k d"
  unfolding gs1_step_def by (cases "re_search p s") (simp_all add: dict_get_update)

lemmas gs1_step_get =
  gs1_step_expiry gs1_step_batch gs1_step_quantity
  gs1_step_expiry_other gs1_step_batch_other gs1_step_quantity_other

subsection \<open>The fields of the record \<^verbatim>\<open>parse_gs1_barcode\<close> returns\<close>

lemma parse_gs1_barcode_steps:
  "parse_gs1_barcode s =
     gs1_step s
       (gs1_step s
          (gs1_step s empty_info (Pattern ''17'' Digit (Exactly 6), ''expiry''))
          (Pattern ''10'' (NoneOf [backslash, CHR ''x'', CHR ''1'', CHR ''D'']) OneOrMore, ''batch''))
       (Pattern ''30'' Digit OneOrMore, ''quantity'')"
  by (simp add: parse_gs1_barcode_def gs1_patterns_def gs1_step_other)

lemma empty_info_get: "dict_get empty_info k '''' = ''''"
  by (simp add: empty_info_def dict_get_def)

lemma parse_gs1_barcode_keys:
  "map fst (parse_gs1_barcode s) =
     [''medicineName'', ''price'', ''manufacturingDate'', ''expiryDate'', ''batchNumber'',
      ''quantity'']"
proof -
  have "map fst (parse_gs1_barcode s) = map fst empty_info"
    unfolding parse_gs1_barcode_def
    by (rule foldl_gs1_step_keys) (simp_all add: empty_info_def)
  then show ?thesis by (simp add: empty_info_def)
qed

lemma parse_gs1_barcode_expiry:
  "dict_get (parse_gs1_barcode s) ''expiryDate'' '''' =
     (case re_search (Pattern ''17'' Digit (Exactly 6)) s of
        None \<Rightarrow> ''''
      | Some v \<Rightarrow>
          if length v = 6
          then (''20'' @ take 2 v) @ ''-'' @ take 2 (drop 2 v) @ ''-'' @ take 2 (drop 4 v)
          else '''')"
  by (simp add: parse_gs1_barcode_steps gs1_step_get empty_info_get cong: option.case_cong if_cong)

lemma parse_gs1_barcode_batch:
  "dict_get (parse_gs1_barcode s) ''batchNumber'' '''' =
     (case re_search
             (Pattern ''10'' (NoneOf [backslash, CHR ''x'', CHR ''1'', CHR ''D'']) OneOrMore) s of
        None \<Rightarrow> ''''
      | Some v \<Rightarrow> v)"
  by (simp add: parse_gs1_barcode_steps gs1_step_get empty_info_get cong: option.case_cong if_cong)

lemma parse_gs1_barcode_quantity:
  "dict_get (parse_gs1_barcode s) ''quantity'' '''' =
     (case re_search (Pattern ''30'' Digit OneOrMore) s of None \<Rightarrow> '''' | Some v \<Rightarrow> v)"
  by (simp add: parse_gs1_barcode_steps gs1_step_get empty_info_get cong: option.case_cong if_cong)

lemma parse_gs1_barcode_unparsed:
  "k \<noteq> ''expiryDate'' \<Longrightarrow> k \<noteq> ''batchNumber'' \<Longrightarrow> k \<noteq> ''quantity'' \<Longrightarrow>
   dict_get (parse_gs1_barcode s) k '''' = ''''"
  by (simp add: parse_gs1_barcode_steps gs1_step_get empty_info_get cong: option.case_cong if_cong)

subsection \<open>A match at a given position\<close>











subsection \<open>The dispatcher and \<^verbatim>\<open>scan_barcode\<close>\<close>

lemma get_medicine_info_cases:
  "get_medicine_info_from_barcode d t = empty_info \<or>
   get_medicine_info_from_barcode d t = parse_gs1_barcode d"
  by (simp add: get_medicine_info_from_barcode_def get_product_info_from_upc_database_def
      requests_get_def parse_code128_medicine_data_def parse_datamatrix_medicine_data_def)

lemma map_of_dict_get:
  "k \<in> set (map fst d) \<Longrightarrow> map_of d k = Some (dict_get d k dflt)"
  by (cases "map_of d k") (auto simp: dict_get_def map_of_eq_None_iff)

lemma retry_enhanced_decoded:
  "retry_enhanced lib fs p = (Inr bs, fs') \<Longrightarrow> \<exists>img. pyzbar_decode lib img = Inr bs"
  unfolding retry_enhanced_def
  by (auto split: prod.splits sum.splits if_splits)

lemma retry_enhanced_removes_file:
  "retry_enhanced lib fs p = (Inr bs, fs') \<Longrightarrow>
   fs' (str_replace ''.jpg'' ''_enhanced.jpg'' p) = None"
  unfolding retry_enhanced_def enhance_image_for_barcode_def
  by (auto simp: Let_def split: prod.splits sum.splits if_splits option.splits)

lemma scan_try_Inr:
  assumes "scan_try lib fs p = (Inr r, fs')"
  shows "\<exists>img b bs payload.
           pyzbar_decode lib img = Inr (b # bs) \<and> data_utf8 b = Inr payload \<and>
           r = assemble (get_medicine_info_from_barcode payload (symbology b)) payload
                 (symbology b)"
proof -
  from assms obtain image0 barcodes0 where
    o: "open_path lib fs p = Inr image0" and d0: "pyzbar_decode lib image0 = Inr barcodes0"
    unfolding scan_try_def by (auto split: sum.splits)
  define res where "res = (if barcodes0 = [] then retry_enhanced lib fs p else (Inr barcodes0, fs))"
  from assms o d0 obtain b bs payload fs2 where
    r: "res = (Inr (b # bs), fs2)" and u: "data_utf8 b = Inr payload" and
    a: "r = assemble (get_medicine_info_from_barcode payload (symbology b)) payload (symbology b)"
    unfolding scan_try_def res_def
    by (auto simp: Let_def split: sum.splits prod.splits list.splits)
  have "\<exists>img. pyzbar_decode lib img = Inr (b # bs)"
  proof (cases "barcodes0 = []")
    case True
    with r have "retry_enhanced lib fs p = (Inr (b # bs), fs2)" by (simp add: res_def)
    then show ?thesis by (rule retry_enhanced_decoded)
  next
    case False
    with r d0 show ?thesis by (auto simp: res_def)
  qed
  with u a show ?thesis by blast
qed

lemma scan_barcode_Inr:
  "fst (scan_barcode lib fs p) = Inr r \<Longrightarrow> \<exists>fs'. scan_try lib fs p = (Inr r, fs')"
  unfolding scan_barcode_def by (auto split: prod.splits sum.splits)

lemma scan_barcode_Inl:
  "fst (scan_barcode lib fs p) = Inl e \<Longrightarrow>
   \<exists>reason. e = ValueError (''Barcode scanning failed: '' @ reason)"
  unfolding scan_barcode_def by (auto split: prod.splits sum.splits)

subsection \<open>The claims\<close>

text \<open>
  C1. The CODE128 payload \<^verbatim>\<open>0112345678901231172406151012345678\<close>, routed through
  \<^verbatim>\<open>get_medicine_info_from_barcode\<close> and assembled, gives expiryDate \<^verbatim>\<open>2024-06-15\<close> and
  barcodeType \<^verbatim>\<open>CODE128\<close>, but an empty batchNumber: the only \<^verbatim>\<open>10\<close> of the payload is
  followed by \<^verbatim>\<open>1\<close>, a character the batch pattern's class excludes, so the pattern
  matches nowhere and batchNumber does not begin with \<^verbatim>\<open>12345678\<close>.
\<close>

theorem code128_end_to_end_batch_empty:
  "assemble
     (get_medicine_info_from_barcode ''0112345678901231172406151012345678'' ''CODE128'')
     ''0112345678901231172406151012345678'' ''CODE128'' =
   [(''medicineName'', ''''), (''price'', ''''), (''manufacturingDate'', ''''),
    (''expiryDate'', ''2024-06-15''), (''batchNumber'', ''''), (''quantity'', ''''),
    (''barcodeData'', ''0112345678901231172406151012345678''),
    (''barcodeType'', ''CODE128'')]"
  by code_simp

text \<open>
  C2. On \<^verbatim>\<open>1017ABC123\<close> the prefix \<^verbatim>\<open>10\<close> is followed by eight characters, none of
  them the separator U+001D, yet \<^verbatim>\<open>parse_gs1_barcode\<close> leaves batchNumber empty (the
  record is the all-empty one): the first of those characters is \<^verbatim>\<open>1\<close>, which the class
  \<^verbatim>\<open>[^\\x1D]\<close> excludes. Where the run after \<^verbatim>\<open>10\<close> does start, it stops at the
  first \<^verbatim>\<open>1\<close>, \<^verbatim>\<open>x\<close>, \<^verbatim>\<open>D\<close> or backslash: \<^verbatim>\<open>10AB1C\<close> gives \<^verbatim>\<open>AB\<close>.
\<close>

theorem parse_gs1_1017ABC123_batch_empty:
  "parse_gs1_barcode ''1017ABC123'' = empty_info \<and>
   dict_get (parse_gs1_barcode ''1017ABC123'') ''batchNumber'' '''' = '''' \<and>
   dict_get (parse_gs1_barcode ''10AB1C'') ''batchNumber'' '''' = ''AB''"
  by code_simp








text \<open>
  C3, as stated, fails. When neither the photograph nor the enhanced image shows a symbol,
  the error that leaves \<^verbatim>\<open>scan_barcode\<close> is the \<^verbatim>\<open>ValueError\<close> of the function's own
  \<^verbatim>\<open>except\<close> clause, with the prefix \<^verbatim>\<open>Barcode scanning failed:\<close>; it is the very value
  that leaves the function when the decoder raises an exception with the same text, so no
  separate kind crosses the interface.
\<close>

theorem no_barcode_kind_counterexample:
  "fst (scan_barcode lib_blank photo_fs ''/tmp/scan.jpg'') =
     Inl (ValueError ''Barcode scanning failed: No barcode detected in the image'') \<and>
   fst (scan_barcode (lib_raising ''No barcode detected in the image'') photo_fs ''/tmp/scan.jpg'') =
     fst (scan_barcode lib_blank photo_fs ''/tmp/scan.jpg'')"
  by code_simp

text \<open>
  C3, amended. When decoding the original image yields no symbol, the enhancement returns
  and decoding the enhanced image yields no symbol either, \<^verbatim>\<open>scan_barcode\<close> fails with
  \<^verbatim>\<open>ValueError("Barcode scanning failed: No barcode detected in the image")\<close>. Every
  failure of \<^verbatim>\<open>scan_barcode\<close> is a \<^verbatim>\<open>ValueError\<close> whose text is that prefix followed by a
  reason; the missing barcode is one such reason.
\<close>

theorem no_barcode_error_is_wrapped:
  "(open_path lib fs image_path = Inr image0 \<and> pyzbar_decode lib image0 = Inr [] \<and>
    enhance_image_for_barcode lib fs image_path = (Inr enhanced_path, fs1) \<and>
    open_path lib fs1 enhanced_path = Inr enhanced_image \<and>
    pyzbar_decode lib enhanced_image = Inr [] \<longrightarrow>
    fst (scan_barcode lib fs image_path) =
      Inl (ValueError ''Barcode scanning failed: No barcode detected in the image'')) \<and>
   (fst (scan_barcode lib fs image_path) = Inl e \<longrightarrow>
    (\<exists>reason. e = ValueError (''Barcode scanning failed: '' @ reason)))"
proof (intro conjI impI)
  assume "open_path lib fs image_path = Inr image0 \<and> pyzbar_decode lib image0 = Inr [] \<and>
    enhance_image_for_barcode lib fs image_path = (Inr enhanced_path, fs1) \<and>
    open_path lib fs1 enhanced_path = Inr enhanced_image \<and>
    pyzbar_decode lib enhanced_image = Inr []"
  then show "fst (scan_barcode lib fs image_path) =
      Inl (ValueError ''Barcode scanning failed: No barcode detected in the image'')"
    by (simp add: scan_barcode_def scan_try_def retry_enhanced_def)
next
  assume "fst (scan_barcode lib fs image_path) = Inl e"
  then show "\<exists>reason. e = ValueError (''Barcode scanning failed: '' @ reason)"
    by (rule scan_barcode_Inl)
qed

theorem no_barcode_error_is_wrapped_witness:
  "fst (scan_barcode lib_blank photo_fs ''/tmp/scan.jpg'') =
     Inl (ValueError ''Barcode scanning failed: No barcode detected in the image'') \<and>
   (\<exists>reason. ValueError ''Barcode scanning failed: boom'' =
      ValueError (''Barcode scanning failed: '' @ reason))"
proof -
  have h: "open_path lib_blank photo_fs ''/tmp/scan.jpg'' = Inr 0 \<and>
      pyzbar_decode lib_blank 0 = Inr [] \<and>
      enhance_image_for_barcode lib_blank photo_fs ''/tmp/scan.jpg'' =
        (Inr ''/tmp/scan_enhanced.jpg'', photo_fs(''/tmp/scan_enhanced.jpg'' \<mapsto> 1)) \<and>
      open_path lib_blank (photo_fs(''/tmp/scan_enhanced.jpg'' \<mapsto> 1)) ''/tmp/scan_enhanced.jpg'' =
        Inr 1 \<and>
      pyzbar_decode lib_blank 1 = Inr []"
    by (simp add: open_path_def enhance_image_for_barcode_def lib_blank_def lib_of_def
        photo_fs_def Let_def)
  have g: "fst (scan_barcode (lib_raising ''boom'') photo_fs ''/tmp/scan.jpg'') =
      Inl (ValueError ''Barcode scanning failed: boom'')"
    by code_simp
  from no_barcode_error_is_wrapped[of lib_blank photo_fs "''/tmp/scan.jpg''" 0
      "''/tmp/scan_enhanced.jpg''" "photo_fs(''/tmp/scan_enhanced.jpg'' \<mapsto> 1)" 1]
    no_barcode_error_is_wrapped[of "lib_raising ''boom''" photo_fs "''/tmp/scan.jpg''" _ _ _ _
      "ValueError ''Barcode scanning failed: boom''"]
    h g
  show ?thesis by blast
qed

text \<open>
  C5. The record \<^verbatim>\<open>get_medicine_info_from_barcode\<close> returns has, on every path, exactly the
  six keys medicineName, price, manufacturingDate, expiryDate, batchNumber and quantity, each
  bound to a string; medicineName, price and manufacturingDate are always empty, and
  expiryDate, batchNumber and quantity are empty when their pattern is found nowhere in the
  payload. A record \<^verbatim>\<open>scan_barcode\<close> returns holds those six values in that order, then
  barcodeData, the text of the first decoded symbol, and barcodeType, its symbology, both
  unchanged.
\<close>

theorem medicine_info_fully_keyed:
  "map fst (get_medicine_info_from_barcode d t) =
     [''medicineName'', ''price'', ''manufacturingDate'', ''expiryDate'', ''batchNumber'',
      ''quantity''] \<and>
   map_of (get_medicine_info_from_barcode d t) ''medicineName'' = Some '''' \<and>
   map_of (get_medicine_info_from_barcode d t) ''price'' = Some '''' \<and>
   map_of (get_medicine_info_from_barcode d t) ''manufacturingDate'' = Some '''' \<and>
   (re_search (Pattern ''17'' Digit (Exactly 6)) d = None \<longrightarrow>
      map_of (get_medicine_info_from_barcode d t) ''expiryDate'' = Some '''') \<and>
   (re_search (Pattern ''10'' (NoneOf [backslash, CHR ''x'', CHR ''1'', CHR ''D'']) OneOrMore) d
      = None \<longrightarrow>
      map_of (get_medicine_info_from_barcode d t) ''batchNumber'' = Some '''') \<and>
   (re_search (Pattern ''30'' Digit OneOrMore) d = None \<longrightarrow>
      map_of (get_medicine_info_from_barcode d t) ''quantity'' = Some '''') \<and>
   (fst (scan_barcode lib fs image_path) = Inr r \<longrightarrow>
      (\<exists>img b bs payload.
         pyzbar_decode lib img = Inr (b # bs) \<and> data_utf8 b = Inr payload \<and>
         r = [(''medicineName'',
                dict_get (get_medicine_info_from_barcode payload (symbology b)) ''medicineName'' ''''),
              (''price'',
                dict_get (get_medicine_info_from_barcode payload (symbology b)) ''price'' ''''),
              (''manufacturingDate'',
                dict_get (get_medicine_info_from_barcode payload (symbology b))
                  ''manufacturingDate'' ''''),
              (''expiryDate'',
                dict_get (get_medicine_info_from_barcode payload (symbology b)) ''expiryDate'' ''''),
              (''batchNumber'',
                dict_get (get_medicine_info_from_barcode payload (symbology b)) ''batchNumber'' ''''),
              (''quantity'',
                dict_get (get_medicine_info_from_barcode payload (symbology b)) ''quantity'' ''''),
              (''barcodeData'', payload),
              (''barcodeType'', symbology b)]))"
proof -
  let ?info = "get_medicine_info_from_barcode d t"
  have keys: "map fst ?info =
     [''medicineName'', ''price'', ''manufacturingDate'', ''expiryDate'', ''batchNumber'',
      ''quantity'']"
    using get_medicine_info_cases[of d t]
    by (auto simp: parse_gs1_barcode_keys empty_info_def)
  have get: "map_of ?info k = Some (dict_get ?info k '''')"
    if "k \<in> set [''medicineName'', ''price'', ''manufacturingDate'', ''expiryDate'',
      ''batchNumber'', ''quantity'']" for k
    using that by (intro map_of_dict_get) (simp only: keys)
  have unparsed: "dict_get ?info k '''' = ''''"
    if "k \<noteq> ''expiryDate''" "k \<noteq> ''batchNumber''" "k \<noteq> ''quantity''" for k
    using get_medicine_info_cases[of d t] that
    by (auto simp: parse_gs1_barcode_unparsed empty_info_get)
  have n: "map_of ?info ''medicineName'' = Some ''''"
    using get[of "''medicineName''"] unparsed[of "''medicineName''"] by simp
  have p: "map_of ?info ''price'' = Some ''''"
    using get[of "''price''"] unparsed[of "''price''"] by simp
  have m: "map_of ?info ''manufacturingDate'' = Some ''''"
    using get[of "''manufacturingDate''"] unparsed[of "''manufacturingDate''"] by simp
  have e: "map_of ?info ''expiryDate'' = Some ''''"
    if "re_search (Pattern ''17'' Digit (Exactly 6)) d = None"
    using get[of "''expiryDate''"] get_medicine_info_cases[of d t] that
    by (auto simp: parse_gs1_barcode_expiry empty_info_get)
  have b: "map_of ?info ''batchNumber'' = Some ''''"
    if "re_search (Pattern ''10'' (NoneOf [backslash, CHR ''x'', CHR ''1'', CHR ''D''])
          OneOrMore) d = None"
    using get[of "''batchNumber''"] get_medicine_info_cases[of d t] that
    by (auto simp: parse_gs1_barcode_batch empty_info_get)
  have q: "map_of ?info ''quantity'' = Some ''''"
    if "re_search (Pattern ''30'' Digit OneOrMore) d = None"
    using get[of "''quantity''"] get_medicine_info_cases[of d t] that
    by (auto simp: parse_gs1_barcode_quantity empty_info_get)
  have s: "\<exists>img b bs payload.
         pyzbar_decode lib img = Inr (b # bs) \<and> data_utf8 b = Inr payload \<and>
         r = assemble (get_medicine_info_from_barcode payload (symbology b)) payload
               (symbology b)"
    if "fst (scan_barcode lib fs image_path) = Inr r"
    using scan_barcode_Inr[OF that] scan_try_Inr by blast
  show ?thesis
    using keys n p m e b q s unfolding assemble_def by blast
qed

theorem medicine_info_fully_keyed_witness:
  "map_of (get_medicine_info_from_barcode ''01ABC'' ''CODE128'') ''expiryDate'' = Some '''' \<and>
   map_of (get_medicine_info_from_barcode ''01ABC'' ''CODE128'') ''batchNumber'' = Some '''' \<and>
   map_of (get_medicine_info_from_barcode ''01ABC'' ''CODE128'') ''quantity'' = Some '''' \<and>
   (\<exists>img b bs payload.
      pyzbar_decode (lib_symbol ''0117240615'' ''CODE128'') img = Inr (b # bs) \<and>
      data_utf8 b = Inr payload \<and>
      [(''medicineName'', ''''), (''price'', ''''), (''manufacturingDate'', ''''),
       (''expiryDate'', ''2024-06-15''), (''batchNumber'', ''''), (''quantity'', ''''),
       (''barcodeData'', ''0117240615''), (''barcodeType'', ''CODE128'')] =
      [(''medicineName'',
         dict_get (get_medicine_info_from_barcode payload (symbology b)) ''medicineName'' ''''),
       (''price'',
         dict_get (get_medicine_info_from_barcode payload (symbology b)) ''price'' ''''),
       (''manufacturingDate'',
         dict_get (get_medicine_info_from_barcode payload (symbology b))
           ''manufacturingDate'' ''''),
       (''expiryDate'',
         dict_get (get_medicine_info_from_barcode payload (symbology b)) ''expiryDate'' ''''),
       (''batchNumber'',
         dict_get (get_medicine_info_from_barcode payload (symbology b)) ''batchNumber'' ''''),
       (''quantity'',
         dict_get (get_medicine_info_from_barcode payload (symbology b)) ''quantity'' ''''),
       (''barcodeData'', payload),
       (''barcodeType'', symbology b)])"
proof -
  have h1: "re_search (Pattern ''17'' Digit (Exactly 6)) ''01ABC'' = None"
    by code_simp
  have h2: "re_search (Pattern ''10'' (NoneOf [backslash, CHR ''x'', CHR ''1'', CHR ''D''])
      OneOrMore) ''01ABC'' = None"
    by code_simp
  have h3: "re_search (Pattern ''30'' Digit OneOrMore) ''01ABC'' = None"
    by code_simp
  have h4: "fst (scan_barcode (lib_symbol ''0117240615'' ''CODE128'') photo_fs ''/tmp/scan.jpg'') =
      Inr [(''medicineName'', ''''), (''price'', ''''), (''manufacturingDate'', ''''),
       (''expiryDate'', ''2024-06-15''), (''batchNumber'', ''''), (''quantity'', ''''),
       (''barcodeData'', ''0117240615''), (''barcodeType'', ''CODE128'')]"
    by code_simp
  from medicine_info_fully_keyed[of "''01ABC''" "''CODE128''"
      "lib_symbol ''0117240615'' ''CODE128''" photo_fs "''/tmp/scan.jpg''"
      "[(''medicineName'', ''''), (''price'', ''''), (''manufacturingDate'', ''''),
       (''expiryDate'', ''2024-06-15''), (''batchNumber'', ''''), (''quantity'', ''''),
       (''barcodeData'', ''0117240615''), (''barcodeType'', ''CODE128'')]"]
    h1 h2 h3 h4
  show ?thesis by blast
qed

text \<open>
  C6. For the symbologies CODE128 and DATAMATRIX the dispatcher returns what the GS1 parser
  returns on the payload when the payload starts with \<^verbatim>\<open>01\<close>, and the record with six
  empty fields for every other payload.
\<close>

theorem dispatch_gs1_on_prefix_01:
  "barcode_type = ''CODE128'' \<or> barcode_type = ''DATAMATRIX'' \<Longrightarrow>
   get_medicine_info_from_barcode barcode_data barcode_type =
     (if prefix ''01'' barcode_data then parse_gs1_barcode barcode_data
      else [(''medicineName'', ''''), (''price'', ''''), (''manufacturingDate'', ''''),
            (''expiryDate'', ''''), (''batchNumber'', ''''), (''quantity'', '''')])"
  by (auto simp: get_medicine_info_from_barcode_def parse_code128_medicine_data_def
      parse_datamatrix_medicine_data_def empty_info_def)

theorem dispatch_gs1_on_prefix_01_witness:
  "get_medicine_info_from_barcode ''0117240615'' ''DATAMATRIX'' =
     parse_gs1_barcode ''0117240615'' \<and>
   get_medicine_info_from_barcode ''17240615'' ''CODE128'' =
     [(''medicineName'', ''''), (''price'', ''''), (''manufacturingDate'', ''''),
      (''expiryDate'', ''''), (''batchNumber'', ''''), (''quantity'', '''')]"
  using dispatch_gs1_on_prefix_01[of "''DATAMATRIX''" "''0117240615''"]
    dispatch_gs1_on_prefix_01[of "''CODE128''" "''17240615''"]
  by simp

text \<open>
  C7. For every payload and every symbology string other than EAN13, EAN8, UPCA, UPCE,
  CODE128 and DATAMATRIX, \<^verbatim>\<open>get_medicine_info_from_barcode\<close> returns the record with six
  empty fields. The function has no failing branch, so it returns on every input.
\<close>

theorem unknown_symbology_empty_record:
  "barcode_type \<notin> {''EAN13'', ''EAN8'', ''UPCA'', ''UPCE'', ''CODE128'', ''DATAMATRIX''} \<Longrightarrow>
   get_medicine_info_from_barcode barcode_data barcode_type =
     [(''medicineName'', ''''), (''price'', ''''), (''manufacturingDate'', ''''),
      (''expiryDate'', ''''), (''batchNumber'', ''''), (''quantity'', '''')]"
  by (simp add: get_medicine_info_from_barcode_def empty_info_def)

theorem unknown_symbology_empty_record_witness:
  "''UNKNOWN'' \<notin> {''EAN13'', ''EAN8'', ''UPCA'', ''UPCE'', ''CODE128'', ''DATAMATRIX''} \<and>
   get_medicine_info_from_barcode ''0117240615'' ''UNKNOWN'' =
     [(''medicineName'', ''''), (''price'', ''''), (''manufacturingDate'', ''''),
      (''expiryDate'', ''''), (''batchNumber'', ''''), (''quantity'', '''')]"
proof -
  have h: "''UNKNOWN'' \<notin> {''EAN13'', ''EAN8'', ''UPCA'', ''UPCE'', ''CODE128'', ''DATAMATRIX''}"
    by simp
  from h unknown_symbology_empty_record[OF h, of "''0117240615''"] show ?thesis by simp
qed

text \<open>
  C8. The enhanced file is removed only when opening and decoding it return. When no symbol
  is found in the photograph and the decoder raises on the enhanced image, control leaves
  the block before \<^verbatim>\<open>os.unlink\<close>: \<^verbatim>\<open>scan_barcode\<close> fails and the enhanced file, absent
  before the call, is still there afterwards.
\<close>

theorem enhanced_file_left_when_decode_raises:
  "photo_fs ''/tmp/scan_enhanced.jpg'' = None \<and>
   fst (scan_barcode (lib_raising ''image file is truncated'') photo_fs ''/tmp/scan.jpg'') =
     Inl (ValueError ''Barcode scanning failed: image file is truncated'') \<and>
   snd (scan_barcode (lib_raising ''image file is truncated'') photo_fs ''/tmp/scan.jpg'')
     ''/tmp/scan_enhanced.jpg'' = Some 1"
  by code_simp

end
